theory Spec2Isabelle
  imports Main "HOL-Library.Sublist"
begin

section \<open>JavaScript strings\<close>

text \<open>
  The validator and the rewriter work on JavaScript strings. A string is modelled as a
  list of 8-bit characters, one per code unit, so the model covers the bodies, paths
  and names whose code units are below 256. The two revisions of the handler in the
  repository are both embedded: the definitions without a suffix follow
  \<^verbatim>\<open>src/handler.js\<close>, the definitions with the suffix \<open>_001\<close> follow
  \<^verbatim>\<open>src/unnamed/part_001\<close>, which is the revision that the test file
  \<^verbatim>\<open>src/unnamed/part_000\<close> exercises.
\<close>

subsection \<open>Searching: indexOf, includes, split\<close>

text \<open>
  \<open>cut_first pat s\<close> finds the first occurrence of \<open>pat\<close> in \<open>s\<close>
  (\<^verbatim>\<open>s.indexOf(pat)\<close>) and returns the text before it and the text after it.
\<close>

fun cut_first :: "string \<Rightarrow> string \<Rightarrow> (string \<times> string) option" where
  "cut_first pat [] = (if pat = [] then Some ([], []) else None)"
| "cut_first pat (c # cs) =
     (if prefix pat (c # cs) then Some ([], drop (length pat) (c # cs))
      else case cut_first pat cs of
             None \<Rightarrow> None
           | Some (b, a) \<Rightarrow> Some (c # b, a))"

text \<open>\<^verbatim>\<open>_.includes(s, t)\<close> on two strings.\<close>

definition str_includes :: "string \<Rightarrow> string \<Rightarrow> bool" where
  "str_includes s t = (cut_first t s \<noteq> None)"

text \<open>\<^verbatim>\<open>s.split(sep)[0]\<close> for a non-empty separator.\<close>

definition split_head :: "string \<Rightarrow> string \<Rightarrow> string" where
  "split_head s sep = (case cut_first sep s of None \<Rightarrow> s | Some (b, a) \<Rightarrow> b)"

subsection \<open>String.prototype.replace with a string pattern\<close>

text \<open>
  The replacement text of \<^verbatim>\<open>replace\<close> is a template: \<^verbatim>\<open>$$\<close> stands for a
  dollar sign, \<^verbatim>\<open>$&\<close> for the matched text, \<^verbatim>\<open>$`\<close> for the text before the
  match and \<^verbatim>\<open>$'\<close> for the text after it. A string pattern has no capture
  groups, so every other use of the dollar sign is literal.
\<close>

fun GetSubstitution :: "string \<Rightarrow> string \<Rightarrow> string \<Rightarrow> string \<Rightarrow> string" where
  "GetSubstitution matched front back [] = []"
| "GetSubstitution matched front back [c] = [c]"
| "GetSubstitution matched front back (c # d # r) =
     (if c = CHR ''$'' \<and> d = CHR ''$'' then CHR ''$'' # GetSubstitution matched front back r
      else if c = CHR ''$'' \<and> d = CHR ''&'' then matched @ GetSubstitution matched front back r
      else if c = CHR ''$'' \<and> d = CHR 0x60 then front @ GetSubstitution matched front back r
      else if c = CHR ''$'' \<and> d = CHR 0x27 then back @ GetSubstitution matched front back r
      else c # GetSubstitution matched front back (d # r))"

text \<open>\<^verbatim>\<open>s.replace(pat, repl)\<close>: only the first occurrence is replaced.\<close>

definition String_replace :: "string \<Rightarrow> string \<Rightarrow> string \<Rightarrow> string" where
  "String_replace s pat repl =
     (case cut_first pat s of
        None \<Rightarrow> s
      | Some (b, a) \<Rightarrow> b @ GetSubstitution pat b a repl @ a)"

subsection \<open>lodash trim, trimStart, trimEnd with a character set\<close>

definition trimStart :: "string \<Rightarrow> string \<Rightarrow> string" where
  "trimStart s chars = dropWhile (\<lambda>c. c \<in> set chars) s"

definition trimEnd :: "string \<Rightarrow> string \<Rightarrow> string" where
  "trimEnd s chars = rev (dropWhile (\<lambda>c. c \<in> set chars) (rev s))"

definition trim :: "string \<Rightarrow> string \<Rightarrow> string" where
  "trim s chars = trimEnd (trimStart s chars) chars"

section \<open>Regular expressions\<close>

text \<open>
  The four regular expressions of the rewriter are sequences of character classes,
  each taken once, optionally (\<^verbatim>\<open>?\<close>), any number of times (\<^verbatim>\<open>*\<close>) or at
  least once (\<^verbatim>\<open>+\<close>); every quantifier is greedy. The capture groups are
  not used by the code: the callback of \<^verbatim>\<open>replace\<close> reads the whole match only.
\<close>

datatype quant = One | Opt | Star | Plus

type_synonym regex = "((char \<Rightarrow> bool) \<times> quant) list"

text \<open>
  \<open>match_here r s\<close> is the backtracking matcher anchored at the start of \<open>s\<close>:
  the length of the match that a JavaScript engine finds there, if any. A greedy
  quantifier first takes the character and gives it back when the rest fails.
\<close>

fun match_here :: "regex \<Rightarrow> string \<Rightarrow> nat option" where
  "match_here [] s = Some 0"
| "match_here ((p, One) # r) [] = None"
| "match_here ((p, One) # r) (c # cs) =
     (if p c then map_option Suc (match_here r cs) else None)"
| "match_here ((p, Opt) # r) [] = match_here r []"
| "match_here ((p, Opt) # r) (c # cs) =
     (if p c then
        (case match_here r cs of
           Some n \<Rightarrow> Some (Suc n)
         | None \<Rightarrow> match_here r (c # cs))
      else match_here r (c # cs))"
| "match_here ((p, Star) # r) [] = match_here r []"
| "match_here ((p, Star) # r) (c # cs) =
     (if p c then
        (case match_here ((p, Star) # r) cs of
           Some n \<Rightarrow> Some (Suc n)
         | None \<Rightarrow> match_here r (c # cs))
      else match_here r (c # cs))"
| "match_here ((p, Plus) # r) [] = None"
| "match_here ((p, Plus) # r) (c # cs) =
     (if p c then map_option Suc (match_here ((p, Star) # r) cs) else None)"

text \<open>
  \<^verbatim>\<open>s.match(r)\<close> with the \<^verbatim>\<open>g\<close> flag: every match, left to right, the search
  resuming where the last match ended (one character further after an empty match).
  JavaScript returns \<^verbatim>\<open>null\<close> when there is none; \<^verbatim>\<open>_.each\<close> treats it as
  the empty collection.
\<close>

function match_all :: "regex \<Rightarrow> string \<Rightarrow> string list" where
  "match_all r [] = (case match_here r [] of None \<Rightarrow> [] | Some n \<Rightarrow> [[]])"
| "match_all r (c # cs) =
     (case match_here r (c # cs) of
        None \<Rightarrow> match_all r cs
      | Some n \<Rightarrow> take n (c # cs) # match_all r (drop (Suc (n - 1)) (c # cs)))"
  by pat_completeness auto
termination
  by (relation "measure (\<lambda>(r, s). length s)") auto

text \<open>
  \<^verbatim>\<open>s.replace(r, f)\<close> with the \<^verbatim>\<open>g\<close> flag and a callback: every match is
  replaced by what the callback returns for it; the text between matches is kept.
\<close>

function replace_all :: "regex \<Rightarrow> (string \<Rightarrow> string) \<Rightarrow> string \<Rightarrow> string" where
  "replace_all r f [] = (case match_here r [] of None \<Rightarrow> [] | Some n \<Rightarrow> f [])"
| "replace_all r f (c # cs) =
     (case match_here r (c # cs) of
        None \<Rightarrow> c # replace_all r f cs
      | Some 0 \<Rightarrow> f [] @ c # replace_all r f cs
      | Some (Suc n) \<Rightarrow> f (take (Suc n) (c # cs)) @ replace_all r f (drop n cs))"
  by pat_completeness auto
termination
  by (relation "measure (\<lambda>(r, f, s). length s)") auto

subsection \<open>Character classes and literals\<close>

text \<open>
  \<^verbatim>\<open>\s\<close> on code units below 256: tab, line feed, vertical tab, form feed,
  carriage return, space and no-break space.
\<close>

definition is_space :: "char \<Rightarrow> bool" where
  "is_space c = (c \<in> {CHR 0x09, CHR 0x0A, CHR 0x0B, CHR 0x0C, CHR 0x0D, CHR 0x20, CHR 0xA0})"

text \<open>The dot matches every character except a line terminator.\<close>

definition is_line_terminator :: "char \<Rightarrow> bool" where
  "is_line_terminator c = (c = CHR 0x0A \<or> c = CHR 0x0D)"

text \<open>\<^verbatim>\<open>["']\<close>\<close>

definition is_quote :: "char \<Rightarrow> bool" where
  "is_quote c = (c = CHR 0x22 \<or> c = CHR 0x27)"

text \<open>
  Under the \<^verbatim>\<open>i\<close> flag an ASCII letter of the pattern matches its two cases and
  nothing else: canonicalisation never maps a code unit of 128 or more to ASCII.
\<close>

definition ascii_upper :: "char \<Rightarrow> char" where
  "ascii_upper c =
     (case map_of (zip ''abcdefghijklmnopqrstuvwxyz'' ''ABCDEFGHIJKLMNOPQRSTUVWXYZ'') c of
        None \<Rightarrow> c
      | Some u \<Rightarrow> u)"

definition lit :: "string \<Rightarrow> regex" where
  "lit s = map (\<lambda>c. ((\<lambda>x. x = c), One)) s"

definition lit_ci :: "string \<Rightarrow> regex" where
  "lit_ci s = map (\<lambda>c. ((\<lambda>x. ascii_upper x = ascii_upper c), One)) s"

subsection \<open>The patterns of the rewriter\<close>

text \<open>\<^verbatim>\<open>/.exit\([^\)]+\)/gm\<close>\<close>

definition exit_regex :: regex where
  "exit_regex =
     [(\<lambda>c. \<not> is_line_terminator c, One)] @ lit ''exit('' @
     [(\<lambda>c. c \<noteq> CHR '')'', Plus), (\<lambda>c. c = CHR '')'', One)]"

text \<open>\<^verbatim>\<open>/clickTag\s*=\s*["'](\S*)["']/gi\<close>\<close>

definition clickTag_regex :: regex where
  "clickTag_regex =
     lit_ci ''clickTag'' @
     [(is_space, Star), (\<lambda>c. c = CHR ''='', One), (is_space, Star),
      (is_quote, One), (\<lambda>c. \<not> is_space c, Star), (is_quote, One)]"

text \<open>\<^verbatim>\<open>/(["']https?:\/\/[^\s]+["'])/g\<close>\<close>

definition url_regex :: regex where
  "url_regex =
     [(is_quote, One)] @ lit ''http'' @ [(\<lambda>c. c = CHR ''s'', Opt)] @ lit ''://'' @
     [(\<lambda>c. \<not> is_space c, Plus), (is_quote, One)]"

text \<open>\<^verbatim>\<open>/(["']https?:\/\/[^\s]+["'],)/g\<close>\<close>

definition url_comma_regex :: regex where
  "url_comma_regex = url_regex @ [(\<lambda>c. c = CHR '','', One)]"

section \<open>The clickthrough URL rewriter\<close>

text \<open>The prefix that both revisions put before the rewritten literal.\<close>

definition decodeUri :: string where
  \<open>decodeUri = ''decodeURIComponent(window.location.href.split('?adserver=')[1]) + ''\<close>

text \<open>
  \<^verbatim>\<open>processClickthroughUrls(body, type)\<close> of \<^verbatim>\<open>src/handler.js\<close>. The callback
  returns the prefix and the trimmed URL in double quotes for both types.
\<close>

definition formatUrl :: "bool \<Rightarrow> string \<Rightarrow> string" where
  \<open>formatUrl isTypeConversion url =
     (let trimmedUrl =
            (if isTypeConversion then trim (trim url [CHR 0x27]) [CHR 0x22]
             else trimEnd (trimStart (trimEnd (trimStart url [CHR 0x27]) [CHR 0x27, CHR '','']) [CHR 0x22])
                          [CHR 0x22, CHR '',''])
      in decodeUri @ [CHR 0x22] @ trimmedUrl @ [CHR 0x22])\<close>

definition processClickthroughUrls :: "string \<Rightarrow> string \<Rightarrow> string" where
  "processClickthroughUrls body type =
     (let isTypeConversion = (type = ''conversion'');
          regex = (if isTypeConversion then clickTag_regex else exit_regex);
          urlRegex = (if isTypeConversion then url_regex else url_comma_regex)
      in foldl (\<lambda>output params.
                  String_replace output params
                    (replace_all urlRegex (formatUrl isTypeConversion) params))
               body (match_all regex body))"

text \<open>
  \<^verbatim>\<open>processClickthroughUrls({ body, type = 'gwd' })\<close> of
  \<^verbatim>\<open>src/unnamed/part_001\<close>. An absent type (\<open>None\<close>) takes the default. The
  callback re-quotes a DesignerTool URL with single quotes and puts the comma back.
\<close>

definition formatUrl_001 :: "bool \<Rightarrow> string \<Rightarrow> string" where
  \<open>formatUrl_001 isGwd url =
     (let trimmedUrl =
            (if isGwd then
               trimEnd (trimStart (trimEnd (trimStart url [CHR 0x27]) [CHR 0x27, CHR '','']) [CHR 0x22])
                       [CHR 0x22, CHR '','']
             else trim (trim url [CHR 0x27]) [CHR 0x22])
      in if isGwd then decodeUri @ [CHR 0x27] @ trimmedUrl @ [CHR 0x27, CHR '','']
         else decodeUri @ [CHR 0x22] @ trimmedUrl @ [CHR 0x22])\<close>

definition processClickthroughUrls_001 :: "string \<Rightarrow> string option \<Rightarrow> string" where
  "processClickthroughUrls_001 body type =
     (let isGwd = ((case type of None \<Rightarrow> ''gwd'' | Some t \<Rightarrow> t) = ''gwd'');
          regex = (if isGwd then exit_regex else clickTag_regex);
          urlRegex = (if isGwd then url_comma_regex else url_regex)
      in foldl (\<lambda>output params.
                  String_replace output params
                    (replace_all urlRegex (formatUrl_001 isGwd) params))
               body (match_all regex body))"

section \<open>The ZIP content validator\<close>

text \<open>
  A rejected promise is the left summand. The listing is what the injected
  \<^verbatim>\<open>_getFiles\<close> returns, and the injected \<^verbatim>\<open>_readRootHtmlFile\<close> is a function
  from paths to contents. The second component of the result lists the paths the reader
  was called with, in order.

  The validator throws \<^verbatim>\<open>new VError(fmt)\<close>. The class comes from the package
  \<^verbatim>\<open>verror\<close>, which is imported and is not part of the repository. Its constructor
  does not take \<open>fmt\<close> as the message: it passes \<open>fmt\<close> through the
  \<^verbatim>\<open>sprintf\<close> of the package \<^verbatim>\<open>extsprintf\<close>, where a percent sign starts a
  conversion. A format without a percent sign holds no conversion and is the message
  as it stands: that is \<open>VError fmt\<close>. For a format with a percent sign the outcome
  is decided inside the package (another message, or an exception of
  \<^verbatim>\<open>sprintf\<close> for a conversion without argument); the model records the call as
  \<open>Sprintf fmt\<close> and says nothing about its message.
\<close>

datatype verror = VError string | Sprintf string

definition new_VError :: "string \<Rightarrow> verror" where
  "new_VError fmt = (if CHR ''%'' \<in> set fmt then Sprintf fmt else VError fmt)"

type_synonym validation = "(verror + bool) \<times> string list"

definition EXTRACT_DIRECTORY :: string where
  "EXTRACT_DIRECTORY = ''../../../../../tmp/rich-media-markup-extracted''"

text \<open>The base name derived from the path of the root file and the declared name.\<close>

definition rootHtmlFileBaseName :: "string \<Rightarrow> string \<Rightarrow> string" where
  "rootHtmlFileBaseName rootHtmlFile fileBaseName =
     split_head
       (split_head
          (String_replace rootHtmlFile (EXTRACT_DIRECTORY @ ''/'' @ fileBaseName @ ''/'') [])
          ''.html'')
       ''/''"

definition gwdMeta :: string where
  \<open>gwdMeta = ''name="generator" content="Google Web Designer''\<close>

definition assetsLink :: string where
  \<open>assetsLink = ''src="assets/''\<close>

definition baseNameMessage :: "string \<Rightarrow> string \<Rightarrow> string" where
  \<open>baseNameMessage fileBaseName derived =
     ''Zip file name '' @ [CHR 0x27] @ fileBaseName @ [CHR 0x27] @
     '' does not contain basename '' @ [CHR 0x27] @ derived @ [CHR 0x27]\<close>

text \<open>\<^verbatim>\<open>validateZipFile\<close> of \<^verbatim>\<open>src/handler.js\<close>.\<close>

definition validateZipFile ::
  "string option \<Rightarrow> string \<Rightarrow> string list \<Rightarrow> (string \<Rightarrow> string) \<Rightarrow> validation" where
  "validateZipFile type fileBaseName files readRootHtmlFile =
     (case find (\<lambda>file. str_includes file ''.html'') files of
        None \<Rightarrow> (Inl (new_VError ''Zip file does not contain a root .html file''), [])
      | Some rootHtmlFile \<Rightarrow>
          if (case type of None \<Rightarrow> ''gwd'' | Some t \<Rightarrow> t) = ''gwd'' then
            (let rootHtmlString = readRootHtmlFile rootHtmlFile;
                 containsGWDMeta = str_includes rootHtmlString gwdMeta;
                 hasAssets = (length (filter (\<lambda>file. str_includes file ''assets/'') files) > 0);
                 linksAssets = str_includes rootHtmlString assetsLink
             in (if length rootHtmlString < 1 then
                   Inl (new_VError ''Root .html file is missing content'')
                 else if \<not> containsGWDMeta then
                   Inl (new_VError ''Root .html file does not contain Google Web Designer metadata'')
                 else if linksAssets \<and> \<not> hasAssets then
                   Inl (new_VError ''Zip file is missing assets folder for linked assets'')
                 else Inr True,
                 [rootHtmlFile]))
          else
            (let derived = rootHtmlFileBaseName rootHtmlFile fileBaseName
             in if \<not> str_includes fileBaseName derived then
                  (Inl (new_VError (baseNameMessage fileBaseName derived)), [])
                else if length (readRootHtmlFile rootHtmlFile) < 1 then
                  (Inl (new_VError ''Root .html file is missing content''), [rootHtmlFile])
                else (Inr True, [rootHtmlFile])))"

text \<open>
  \<^verbatim>\<open>validateFile\<close> of \<^verbatim>\<open>src/handler.js\<close>: the \<^verbatim>\<open>switch\<close> on the exporter
  field of the form, with its \<^verbatim>\<open>default\<close> branch.
\<close>

definition validateFile :: "string \<Rightarrow> string list \<Rightarrow> (string \<Rightarrow> string) \<Rightarrow> string option \<Rightarrow> validation" where
  "validateFile fileBaseName files readRootHtmlFile exporter =
     (if exporter = Some ''gwd'' then validateZipFile exporter fileBaseName files readRootHtmlFile
      else if exporter = Some ''conversion'' then validateZipFile exporter fileBaseName files readRootHtmlFile
      else validateZipFile (Some ''gwd'') fileBaseName files readRootHtmlFile)"

text \<open>\<^verbatim>\<open>validateZipFile\<close> of \<^verbatim>\<open>src/unnamed/part_001\<close>.\<close>

definition validateZipFile_001 ::
  "string option \<Rightarrow> string \<Rightarrow> string list \<Rightarrow> (string \<Rightarrow> string) \<Rightarrow> validation" where
  "validateZipFile_001 type fileBaseName files readRootHtmlFile =
     (let ty = (case type of None \<Rightarrow> ''gwd'' | Some t \<Rightarrow> t) in
      case find (\<lambda>file. str_includes file ''.html'') files of
        None \<Rightarrow> (Inl (new_VError ''Zip file does not contain a root .html file''), [])
      | Some rootHtmlFile \<Rightarrow>
          if ty = ''conversion'' \<and>
             \<not> str_includes fileBaseName (rootHtmlFileBaseName rootHtmlFile fileBaseName) then
            (Inl (new_VError (baseNameMessage fileBaseName
                            (rootHtmlFileBaseName rootHtmlFile fileBaseName))), [])
          else
            (let rootHtmlString = readRootHtmlFile rootHtmlFile;
                 containsGWDMeta = str_includes rootHtmlString gwdMeta;
                 hasAssets = (length (filter (\<lambda>file. str_includes file ''assets/'') files) > 0);
                 linksAssets = str_includes rootHtmlString assetsLink
             in (if length rootHtmlString < 1 then
                   Inl (new_VError ''Root .html file is missing content'')
                 else if ty = ''gwd'' \<and> \<not> containsGWDMeta then
                   Inl (new_VError ''Root .html file does not contain Google Web Designer metadata'')
                 else if ty = ''gwd'' \<and> linksAssets \<and> \<not> hasAssets then
                   Inl (new_VError ''Zip file is missing assets folder for linked assets'')
                 else Inr True,
                 [rootHtmlFile])))"

text \<open>\<^verbatim>\<open>validateFile\<close> of \<^verbatim>\<open>src/unnamed/part_001\<close> passes the type on.\<close>

definition validateFile_001 :: "string \<Rightarrow> string list \<Rightarrow> (string \<Rightarrow> string) \<Rightarrow> string option \<Rightarrow> validation" where
  "validateFile_001 fileBaseName files readRootHtmlFile type =
     validateZipFile_001 type fileBaseName files readRootHtmlFile"

subsection \<open>The rules of the validator, in the words of the specification\<close>

text \<open>
  The specification speaks of a path with an \<^verbatim>\<open>assets/\<close> segment. The segments of
  a path are the texts between its separators \<^verbatim>\<open>/\<close>; a path has an
  \<^verbatim>\<open>assets/\<close> segment when one of its segments, other than the last, is
  \<^verbatim>\<open>assets\<close>.
\<close>

fun path_segments :: "string \<Rightarrow> string list" where
  "path_segments [] = [[]]"
| "path_segments (c # cs) =
     (if c = CHR ''/'' then [] # path_segments cs
      else case path_segments cs of
             [] \<Rightarrow> [[c]]
           | seg # segs \<Rightarrow> (c # seg) # segs)"

definition has_assets_segment :: "string \<Rightarrow> bool" where
  "has_assets_segment path = (''assets'' \<in> set (butlast (path_segments path)))"



subsection \<open>Occurrences of a pattern\<close>

text \<open>A pattern occurs in a text when the matcher succeeds at some position of it.\<close>

definition pattern_occurs :: "regex \<Rightarrow> string \<Rightarrow> bool" where
  "pattern_occurs r s = (\<exists>suf \<in> set (suffixes s). match_here r suf \<noteq> None)"

text \<open>
  A text holds the start of a URL literal when a quote character is directly followed
  by \<^verbatim>\<open>http://\<close> or \<^verbatim>\<open>https://\<close> somewhere in it.
\<close>

definition quoted_http :: "string \<Rightarrow> bool" where
  "quoted_http s =
     (\<exists>q \<in> {CHR 0x22, CHR 0x27}.
        str_includes s (q # ''http://'') \<or> str_includes s (q # ''https://''))"




section \<open>Properties of the string operations\<close>

lemma cut_first_Some: "cut_first pat s = Some (b, a) \<Longrightarrow> s = b @ pat @ a"
proof (induction s arbitrary: b)
  case Nil
  then show ?case by (simp split: if_splits)
next
  case (Cons c cs)
  show ?case
  proof (cases "prefix pat (c # cs)")
    case True
    with Cons.prems have "b = []" "a = drop (length pat) (c # cs)" by simp_all
    moreover from True obtain r where "c # cs = pat @ r" by (auto simp: prefix_def)
    ultimately show ?thesis by simp
  next
    case False
    with Cons.prems obtain b' where "cut_first pat cs = Some (b', a)" "b = c # b'"
      by (auto split: option.splits)
    with Cons.IH show ?thesis by simp
  qed
qed

lemma cut_first_prefix: "prefix pat s \<Longrightarrow> cut_first pat s = Some ([], drop (length pat) s)"
  by (cases s) auto

lemma cut_first_append: "\<exists>b' a'. cut_first pat (b @ pat @ a) = Some (b', a')"
proof (induction b)
  case Nil
  show ?case by (simp add: cut_first_prefix)
next
  case (Cons c b)
  then show ?case by (auto split: option.splits)
qed

lemma str_includes_iff: "str_includes s t \<longleftrightarrow> (\<exists>b a. s = b @ t @ a)"
proof
  assume "str_includes s t"
  then obtain b a where "cut_first t s = Some (b, a)" by (auto simp: str_includes_def)
  then show "\<exists>b a. s = b @ t @ a" by (blast dest: cut_first_Some)
next
  assume "\<exists>b a. s = b @ t @ a"
  then obtain b a where "s = b @ t @ a" by blast
  with cut_first_append [of t b a] show "str_includes s t" by (auto simp: str_includes_def)
qed

lemma find_None_html: "(\<forall>f \<in> set files. \<not> P f) \<Longrightarrow> find P files = None"
  by (simp add: find_None_iff)

lemma length_less_one: "(length xs < 1) = (xs = [])"
  by (cases xs) simp_all


section \<open>Properties of the validator\<close>

lemma new_VError_plain: "CHR ''%'' \<notin> set m \<Longrightarrow> new_VError m = VError m"
  by (simp add: new_VError_def)

lemma new_VError_constants [simp]:
  "new_VError ''Zip file does not contain a root .html file'' =
     VError ''Zip file does not contain a root .html file''"
  "new_VError ''Root .html file is missing content'' = VError ''Root .html file is missing content''"
  "new_VError ''Root .html file does not contain Google Web Designer metadata'' =
     VError ''Root .html file does not contain Google Web Designer metadata''"
  "new_VError ''Zip file is missing assets folder for linked assets'' =
     VError ''Zip file is missing assets folder for linked assets''"
  by (simp_all add: new_VError_def)




lemma baseNameMessage_plain:
  assumes "CHR ''%'' \<notin> set name" and "CHR ''%'' \<notin> set derived"
  shows "new_VError (baseNameMessage name derived) = VError (baseNameMessage name derived)"
  using assms by (intro new_VError_plain) (simp add: baseNameMessage_def)

lemma path_segments_ne: "path_segments p \<noteq> []"
  by (induction p) (auto split: list.splits)

lemma path_segments_join:
  "concat (map (\<lambda>seg. seg @ ''/'') (butlast (path_segments p))) @ last (path_segments p) = p"
proof (induction p)
  case Nil
  show ?case by simp
next
  case (Cons c p)
  obtain seg segs where ps: "path_segments p = seg # segs"
    using path_segments_ne [of p] by (cases "path_segments p") auto
  show ?case using Cons ps by (cases segs) (auto split: if_splits)
qed

lemma segment_included:
  assumes "seg \<in> set (butlast (path_segments p))"
  shows "str_includes p (seg @ ''/'')"
proof -
  from assms obtain ys zs where b: "butlast (path_segments p) = ys @ seg # zs"
    by (auto simp: in_set_conv_decomp)
  have "p = concat (map (\<lambda>seg. seg @ ''/'') ys) @ (seg @ ''/'') @
            (concat (map (\<lambda>seg. seg @ ''/'') zs) @ last (path_segments p))"
    using path_segments_join [of p] unfolding b by simp
  then show ?thesis unfolding str_includes_iff by blast
qed

lemma assets_segment_included: "has_assets_segment p \<Longrightarrow> str_includes p ''assets/''"
  using segment_included [of "''assets''" p] by (simp add: has_assets_segment_def)









lemma str_includes_append_self: "str_includes (xs @ ys) xs"
  using str_includes_iff [of "xs @ ys" xs] by (metis append_Nil)

text \<open>
  Claim C3, amended. For a Generic bundle with a root file, let the derived name be the
  base name computed from the root path and the declared name. If the declared name is
  the derived name followed by a parenthesised suffix \<open>(n)\<close> and the root content
  is not empty, validation returns true. If the declared name does not contain the
  derived name, validation fails before any read, with the error that the constructor
  makes of \<^verbatim>\<open>Zip file name '<declared>' does not contain basename '<derived>'\<close>;
  when neither name holds a percent sign, that text is the message of the error,
  with both names as they are.
\<close>

theorem conversion_base_name_rule:
  assumes "find (\<lambda>file. str_includes file ''.html'') files = Some root"
    and "derived = rootHtmlFileBaseName root declared"
  shows "(declared = derived @ '' ('' @ n @ '')'' \<and> reader root \<noteq> [] \<longrightarrow>
            fst (validateZipFile (Some ''conversion'') declared files reader) = Inr True \<and>
            fst (validateZipFile_001 (Some ''conversion'') declared files reader) = Inr True) \<and>
         (\<not> str_includes declared derived \<longrightarrow>
            validateZipFile (Some ''conversion'') declared files reader =
              (Inl (new_VError (''Zip file name '' @ [CHR 0x27] @ declared @ [CHR 0x27] @
                                '' does not contain basename '' @ [CHR 0x27] @ derived @ [CHR 0x27])),
               []) \<and>
            validateZipFile_001 (Some ''conversion'') declared files reader =
              (Inl (new_VError (''Zip file name '' @ [CHR 0x27] @ declared @ [CHR 0x27] @
                                '' does not contain basename '' @ [CHR 0x27] @ derived @ [CHR 0x27])),
               [])) \<and>
         (\<not> str_includes declared derived \<and> CHR ''%'' \<notin> set declared \<and> CHR ''%'' \<notin> set derived \<longrightarrow>
            validateZipFile (Some ''conversion'') declared files reader =
              (Inl (VError (''Zip file name '' @ [CHR 0x27] @ declared @ [CHR 0x27] @
                            '' does not contain basename '' @ [CHR 0x27] @ derived @ [CHR 0x27])),
               []) \<and>
            validateZipFile_001 (Some ''conversion'') declared files reader =
              (Inl (VError (''Zip file name '' @ [CHR 0x27] @ declared @ [CHR 0x27] @
                            '' does not contain basename '' @ [CHR 0x27] @ derived @ [CHR 0x27])),
               []))"
proof -
  let ?m = "''Zip file name '' @ [CHR 0x27] @ declared @ [CHR 0x27] @
            '' does not contain basename '' @ [CHR 0x27] @ derived @ [CHR 0x27]"
  have msg: "baseNameMessage declared derived = ?m" by (simp add: baseNameMessage_def)
  have ok: "fst (validateZipFile (Some ''conversion'') declared files reader) = Inr True \<and>
            fst (validateZipFile_001 (Some ''conversion'') declared files reader) = Inr True"
    if a: "declared = derived @ '' ('' @ n @ '')'' \<and> reader root \<noteq> []"
  proof -
    from a have inc: "str_includes declared (rootHtmlFileBaseName root declared)"
      using assms(2) str_includes_append_self [of derived "'' ('' @ n @ '')''"] by simp
    from a have ne: "reader root \<noteq> []" by simp
    show ?thesis
      using assms(1) inc ne
      by (simp add: validateZipFile_def validateZipFile_001_def length_less_one)
  qed
  have fails: "validateZipFile (Some ''conversion'') declared files reader =
                 (Inl (new_VError ?m), []) \<and>
               validateZipFile_001 (Some ''conversion'') declared files reader =
                 (Inl (new_VError ?m), [])"
    if n: "\<not> str_includes declared derived"
    using assms n unfolding msg [symmetric]
    by (simp add: validateZipFile_def validateZipFile_001_def)
  have plain: "new_VError ?m = VError ?m"
    if "CHR ''%'' \<notin> set declared \<and> CHR ''%'' \<notin> set derived"
    using that baseNameMessage_plain [of declared derived] unfolding msg by blast
  show ?thesis
  proof (intro conjI impI)
    assume "declared = derived @ '' ('' @ n @ '')'' \<and> reader root \<noteq> []"
    from ok [OF this] show "fst (validateZipFile (Some ''conversion'') declared files reader) = Inr True"
      and "fst (validateZipFile_001 (Some ''conversion'') declared files reader) = Inr True"
      by simp_all
  next
    assume "\<not> str_includes declared derived"
    from fails [OF this] show "validateZipFile (Some ''conversion'') declared files reader =
                 (Inl (new_VError ?m), [])"
      and "validateZipFile_001 (Some ''conversion'') declared files reader =
                 (Inl (new_VError ?m), [])"
      by simp_all
  next
    assume a: "\<not> str_includes declared derived \<and> CHR ''%'' \<notin> set declared \<and> CHR ''%'' \<notin> set derived"
    then have n: "\<not> str_includes declared derived"
      and p: "CHR ''%'' \<notin> set declared \<and> CHR ''%'' \<notin> set derived" by simp_all
    from fails [OF n] plain [OF p]
    show "validateZipFile (Some ''conversion'') declared files reader = (Inl (VError ?m), [])"
      and "validateZipFile_001 (Some ''conversion'') declared files reader = (Inl (VError ?m), [])"
      by simp_all
  qed
qed

lemma rootHtmlFileBaseName_test_a:
  "rootHtmlFileBaseName ''conversio-test-a.html'' ''conversio-test-a (1)'' = ''conversio-test-a''"
  by (simp add: rootHtmlFileBaseName_def split_head_def String_replace_def EXTRACT_DIRECTORY_def)

lemma rootHtmlFileBaseName_test_b:
  "rootHtmlFileBaseName ''conversio-test-b.html'' ''conversio-test-a (1)'' = ''conversio-test-b''"
  by (simp add: rootHtmlFileBaseName_def split_head_def String_replace_def EXTRACT_DIRECTORY_def)

theorem conversion_base_name_rule_witness:
  \<open>fst (validateZipFile (Some ''conversion'') ''conversio-test-a (1)''
          [''conversio-test-a.html'', ''images/test-image.png'']
          (\<lambda>p. ''<image src="images/test-image.png"/>'')) = Inr True \<and>
   fst (validateZipFile_001 (Some ''conversion'') ''conversio-test-a (1)''
          [''conversio-test-a.html'', ''images/test-image.png'']
          (\<lambda>p. ''<image src="images/test-image.png"/>'')) = Inr True \<and>
   validateZipFile (Some ''conversion'') ''conversio-test-a (1)''
          [''conversio-test-b.html'', ''images/test-image.png'']
          (\<lambda>p. ''<image src="images/test-image.png"/>'') =
     (Inl (VError (''Zip file name 'conversio-test-a (1)' does not contain basename 'conversio-test-b'' @
                   [CHR 0x27])), []) \<and>
   validateZipFile_001 (Some ''conversion'') ''conversio-test-a (1)''
          [''conversio-test-b.html'', ''images/test-image.png'']
          (\<lambda>p. ''<image src="images/test-image.png"/>'') =
     (Inl (VError (''Zip file name 'conversio-test-a (1)' does not contain basename 'conversio-test-b'' @
                   [CHR 0x27])), [])\<close>
proof -
  have fa: "find (\<lambda>file. str_includes file ''.html'')
              [''conversio-test-a.html'', ''images/test-image.png''] = Some ''conversio-test-a.html''"
    by (simp add: str_includes_def)
  have fb: "find (\<lambda>file. str_includes file ''.html'')
              [''conversio-test-b.html'', ''images/test-image.png''] = Some ''conversio-test-b.html''"
    by (simp add: str_includes_def)
  have da: "''conversio-test-a'' = rootHtmlFileBaseName ''conversio-test-a.html'' ''conversio-test-a (1)''"
    by (simp add: rootHtmlFileBaseName_test_a)
  have db: "''conversio-test-b'' = rootHtmlFileBaseName ''conversio-test-b.html'' ''conversio-test-a (1)''"
    by (simp add: rootHtmlFileBaseName_test_b)
  have nb: "\<not> str_includes ''conversio-test-a (1)'' ''conversio-test-b''"
    by (simp add: str_includes_def)
  have pc: "CHR ''%'' \<notin> set ''conversio-test-a (1)''" "CHR ''%'' \<notin> set ''conversio-test-b''"
    by simp_all
  from conversion_base_name_rule [OF fa da, of "''1''" \<open>\<lambda>p. ''<image src="images/test-image.png"/>''\<close>]
       conversion_base_name_rule [OF fb db, of "''1''" \<open>\<lambda>p. ''<image src="images/test-image.png"/>''\<close>] nb pc
  show ?thesis by (simp add: new_VError_def)
qed

text \<open>
  The claim as stated promises success for every Generic bundle whose declared name is
  the derived name with a suffix. A bundle with an empty root file is rejected.
\<close>

theorem conversion_base_name_empty_content_counterexample:
  "rootHtmlFileBaseName ''B.html'' ''B (1)'' = ''B'' \<and>
   validateZipFile (Some ''conversion'') ''B (1)'' [''B.html''] (\<lambda>p. []) =
     (Inl (VError ''Root .html file is missing content''), [''B.html'']) \<and>
   validateZipFile_001 (Some ''conversion'') ''B (1)'' [''B.html''] (\<lambda>p. []) =
     (Inl (VError ''Root .html file is missing content''), [''B.html''])"
  by (simp add: validateZipFile_def validateZipFile_001_def rootHtmlFileBaseName_def
        split_head_def String_replace_def EXTRACT_DIRECTORY_def str_includes_def)

text \<open>
  Claim C4, amended. For a DesignerTool bundle whose root file is present, not empty and
  carries the generator marker: if the content contains \<^verbatim>\<open>src="assets/\<close> and no
  path of the listing contains the text \<^verbatim>\<open>assets/\<close>, validation fails with
  \<^verbatim>\<open>Zip file is missing assets folder for linked assets\<close>; if some path of the
  listing contains the text \<^verbatim>\<open>assets/\<close>, validation returns true. A path with an
  \<^verbatim>\<open>assets/\<close> segment is such a path.
\<close>

theorem gwd_assets_rule:
  assumes "type = None \<or> type = Some ''gwd''"
    and "find (\<lambda>file. str_includes file ''.html'') files = Some root"
    and "reader root \<noteq> []"
    and \<open>str_includes (reader root) ''name="generator" content="Google Web Designer''\<close>
  shows \<open>(str_includes (reader root) ''src="assets/'' \<and>
          (\<forall>file \<in> set files. \<not> str_includes file ''assets/'') \<longrightarrow>
            fst (validateZipFile type name files reader) =
              Inl (VError ''Zip file is missing assets folder for linked assets'') \<and>
            fst (validateZipFile_001 type name files reader) =
              Inl (VError ''Zip file is missing assets folder for linked assets'')) \<and>
         ((\<exists>file \<in> set files. str_includes file ''assets/'') \<longrightarrow>
            fst (validateZipFile type name files reader) = Inr True \<and>
            fst (validateZipFile_001 type name files reader) = Inr True) \<and>
         ((\<exists>file \<in> set files. has_assets_segment file) \<longrightarrow>
            fst (validateZipFile type name files reader) = Inr True \<and>
            fst (validateZipFile_001 type name files reader) = Inr True)\<close>
proof -
  have seg: "\<exists>file \<in> set files. str_includes file ''assets/''"
    if "\<exists>file \<in> set files. has_assets_segment file"
    using that assets_segment_included by blast
  have sub: "fst (validateZipFile type name files reader) = Inr True \<and>
             fst (validateZipFile_001 type name files reader) = Inr True"
    if "\<exists>file \<in> set files. str_includes file ''assets/''"
    using assms that
    by (auto simp: validateZipFile_def validateZipFile_001_def Let_def length_less_one
          filter_empty_conv gwdMeta_def assetsLink_def)
  have miss: \<open>fst (validateZipFile type name files reader) =
              Inl (VError ''Zip file is missing assets folder for linked assets'') \<and>
            fst (validateZipFile_001 type name files reader) =
              Inl (VError ''Zip file is missing assets folder for linked assets'')\<close>
    if \<open>str_includes (reader root) ''src="assets/'' \<and>
          (\<forall>file \<in> set files. \<not> str_includes file ''assets/'')\<close>
    using assms that
    by (auto simp: validateZipFile_def validateZipFile_001_def Let_def length_less_one
          filter_empty_conv gwdMeta_def assetsLink_def)
  show ?thesis using miss sub seg by blast
qed

theorem gwd_assets_rule_witness:
  \<open>fst (validateZipFile (Some ''gwd'') ''gwd-test-a'' [''gwd-test-a.html'']
          (\<lambda>p. ''<meta name="generator" content="Google Web Designer"/><image src="assets/test-image.png"/>'')) =
     Inl (VError ''Zip file is missing assets folder for linked assets'') \<and>
   fst (validateZipFile_001 (Some ''gwd'') ''gwd-test-a'' [''gwd-test-a.html'']
          (\<lambda>p. ''<meta name="generator" content="Google Web Designer"/><image src="assets/test-image.png"/>'')) =
     Inl (VError ''Zip file is missing assets folder for linked assets'') \<and>
   fst (validateZipFile (Some ''gwd'') ''gwd-test-a (1)'' [''gwd-test-a.html'', ''assets/test-image.png'']
          (\<lambda>p. ''<meta name="generator" content="Google Web Designer"/><image src="assets/test-image.png"/>'')) =
     Inr True \<and>
   fst (validateZipFile_001 (Some ''gwd'') ''gwd-test-a (1)'' [''gwd-test-a.html'', ''assets/test-image.png'']
          (\<lambda>p. ''<meta name="generator" content="Google Web Designer"/><image src="assets/test-image.png"/>'')) =
     Inr True\<close>
proof -
  let ?reader = \<open>\<lambda>p::string. ''<meta name="generator" content="Google Web Designer"/><image src="assets/test-image.png"/>''\<close>
  have t: "Some ''gwd'' = None \<or> Some ''gwd'' = Some ''gwd''" by simp
  have f1: "find (\<lambda>file. str_includes file ''.html'') [''gwd-test-a.html''] = Some ''gwd-test-a.html''"
    by (simp add: str_includes_def)
  have f2: "find (\<lambda>file. str_includes file ''.html'') [''gwd-test-a.html'', ''assets/test-image.png'']
              = Some ''gwd-test-a.html''"
    by (simp add: str_includes_def)
  have ne: "?reader ''gwd-test-a.html'' \<noteq> []" by simp
  have meta: \<open>str_includes (?reader ''gwd-test-a.html'') ''name="generator" content="Google Web Designer''\<close>
    by (simp add: str_includes_def)
  have links: \<open>str_includes (?reader ''gwd-test-a.html'') ''src="assets/''\<close>
    by (simp add: str_includes_def)
  have none: "\<forall>file \<in> set [''gwd-test-a.html'']. \<not> str_includes file ''assets/''"
    by (simp add: str_includes_def)
  have some: "\<exists>file \<in> set [''gwd-test-a.html'', ''assets/test-image.png'']. str_includes file ''assets/''"
    by (simp add: str_includes_def)
  from gwd_assets_rule [OF t f1 ne meta, of "''gwd-test-a''"]
       gwd_assets_rule [OF t f2 ne meta, of "''gwd-test-a (1)''"] links none some
  show ?thesis by blast
qed

text \<open>
  The claim as stated asks for a path with an \<^verbatim>\<open>assets/\<close> segment. A listing
  whose only folder is \<^verbatim>\<open>myassets\<close> has no such path, the content links an
  asset, and both revisions return true.
\<close>

theorem assets_substring_accepted_counterexample:
  \<open>\<not> (\<exists>file \<in> set [''a.html'', ''myassets/z.png'']. has_assets_segment file) \<and>
   str_includes ''<meta name="generator" content="Google Web Designer"/><img src="assets/z.png"/>''
     ''src="assets/'' \<and>
   validateZipFile (Some ''gwd'') ''a'' [''a.html'', ''myassets/z.png'']
      (\<lambda>p. ''<meta name="generator" content="Google Web Designer"/><img src="assets/z.png"/>'') =
     (Inr True, [''a.html'']) \<and>
   validateZipFile_001 (Some ''gwd'') ''a'' [''a.html'', ''myassets/z.png'']
      (\<lambda>p. ''<meta name="generator" content="Google Web Designer"/><img src="assets/z.png"/>'') =
     (Inr True, [''a.html''])\<close>
  by (simp add: validateZipFile_def validateZipFile_001_def str_includes_def
        has_assets_segment_def gwdMeta_def assetsLink_def)

text \<open>
  Claim C9, amended. A type that is neither \<^verbatim>\<open>gwd\<close> nor \<^verbatim>\<open>conversion\<close>
  is not rejected for being unknown. \<^verbatim>\<open>validateFile\<close> of \<^verbatim>\<open>handler.js\<close>
  validates the bundle as a DesignerTool bundle, through the default branch of its
  switch. \<^verbatim>\<open>validateFile\<close> of \<^verbatim>\<open>part_001\<close> passes the type on, and the
  validator then checks the presence of the root file and its content only.
\<close>

theorem unrecognized_type_not_rejected:
  "(exporter \<noteq> Some ''gwd'' \<and> exporter \<noteq> Some ''conversion'' \<longrightarrow>
      validateFile name files reader exporter =
        validateZipFile (Some ''gwd'') name files reader) \<and>
   (ty \<noteq> ''gwd'' \<and> ty \<noteq> ''conversion'' \<longrightarrow>
      validateFile_001 name files reader (Some ty) =
        (case find (\<lambda>file. str_includes file ''.html'') files of
           None \<Rightarrow> (Inl (VError ''Zip file does not contain a root .html file''), [])
         | Some root \<Rightarrow>
             (if reader root = [] then Inl (VError ''Root .html file is missing content'')
              else Inr True, [root])))"
  by (auto simp: validateFile_def validateFile_001_def validateZipFile_001_def Let_def
        length_less_one split: option.splits)

theorem unrecognized_type_not_rejected_witness:
  \<open>validateFile ''b'' [''b.html''] (\<lambda>p. ''<meta/>'') (Some ''foo'') =
     validateZipFile (Some ''gwd'') ''b'' [''b.html''] (\<lambda>p. ''<meta/>'') \<and>
   validateFile_001 ''b'' [''b.html''] (\<lambda>p. ''<meta/>'') (Some ''foo'') =
     (Inr True, [''b.html''])\<close>
proof -
  have h1: "Some ''foo'' \<noteq> Some ''gwd'' \<and> Some ''foo'' \<noteq> Some ''conversion''" by simp
  have h2: "''foo'' \<noteq> ''gwd'' \<and> ''foo'' \<noteq> ''conversion''" by simp
  have f: "find (\<lambda>file. str_includes file ''.html'') [''b.html''] = Some ''b.html''"
    by (simp add: str_includes_def)
  from unrecognized_type_not_rejected
         [of "Some ''foo''" "''b''" "[''b.html'']" "\<lambda>p. ''<meta/>''" "''foo''"] h1 h2 f
  show ?thesis by simp
qed

text \<open>
  The claim as stated says that an unrecognized type is rejected. Both revisions accept
  a bundle of type \<^verbatim>\<open>foo\<close>.
\<close>

theorem unrecognized_type_accepted_counterexample:
  \<open>validateFile ''b'' [''b.html'']
      (\<lambda>p. ''<meta name="generator" content="Google Web Designer"/>'') (Some ''foo'') =
     (Inr True, [''b.html'']) \<and>
   validateFile_001 ''b'' [''b.html''] (\<lambda>p. ''<p/>'') (Some ''foo'') = (Inr True, [''b.html''])\<close>
  by (simp add: validateFile_def validateFile_001_def validateZipFile_def validateZipFile_001_def
        str_includes_def gwdMeta_def assetsLink_def)

section \<open>Properties of the matcher\<close>

lemma match_here_le: "match_here r s = Some n \<Longrightarrow> n \<le> length s"
  by (induction r s arbitrary: n rule: match_here.induct)
     (auto split: if_splits option.splits)

lemma match_all_none:
  "\<forall>suf. suffix suf s \<longrightarrow> match_here r suf = None \<Longrightarrow> match_all r s = []"
proof (induction s)
  case Nil
  then show ?case by simp
next
  case (Cons c cs)
  have "match_here r (c # cs) = None" using Cons.prems by simp
  moreover have "match_all r cs = []"
    using Cons.IH Cons.prems by (simp add: suffix_Cons)
  ultimately show ?case by simp
qed

lemma match_all_elem:
  "m \<in> set (match_all r s) \<Longrightarrow>
   \<exists>suf n. suffix suf s \<and> match_here r suf = Some n \<and> m = take n suf"
proof (induction r s rule: match_all.induct)
  case (1 r)
  then show ?case by (cases "match_here r []") auto
next
  case (2 r c cs)
  show ?case
  proof (cases "match_here r (c # cs)")
    case None
    with 2 obtain suf n where "suffix suf cs" "match_here r suf = Some n" "m = take n suf"
      by auto
    then show ?thesis by (auto simp: suffix_Cons)
  next
    case (Some n)
    show ?thesis
    proof (cases "m = take n (c # cs)")
      case True
      with Some show ?thesis by blast
    next
      case False
      with Some 2 obtain suf k where
        s: "suffix suf (drop (Suc (n - 1)) (c # cs))" and "match_here r suf = Some k" "m = take k suf"
        by auto
      from s have "suffix suf (c # cs)"
        by (meson suffix_drop suffix_order.trans)
      then show ?thesis using \<open>match_here r suf = Some k\<close> \<open>m = take k suf\<close> by blast
    qed
  qed
qed





lemma pattern_occurs_iff:
  "pattern_occurs r s \<longleftrightarrow> (\<exists>suf. suffix suf s \<and> match_here r suf \<noteq> None)"
  by (auto simp: pattern_occurs_def)

lemma no_pattern_no_match: "\<not> pattern_occurs r s \<Longrightarrow> match_all r s = []"
  by (rule match_all_none) (simp add: pattern_occurs_iff)

lemma no_match_identity:
  "\<not> pattern_occurs exit_regex body \<Longrightarrow>
     processClickthroughUrls body ''gwd'' = body \<and>
     processClickthroughUrls_001 body (Some ''gwd'') = body"
  "\<not> pattern_occurs clickTag_regex body \<Longrightarrow>
     processClickthroughUrls body ''conversion'' = body \<and>
     processClickthroughUrls_001 body (Some ''conversion'') = body"
  by (simp_all add: processClickthroughUrls_def processClickthroughUrls_001_def no_pattern_no_match)

text \<open>
  Claim C7. A body without a clickthrough occurrence should come back as it is, and the
  rewriter should have no way to fail. The loop ends each round with
  \<^verbatim>\<open>output.replace(params, formattedParams)\<close>, which takes the text of the
  occurrence as a replacement template: \<^verbatim>\<open>$&\<close>, \<^verbatim>\<open>$`\<close>, \<^verbatim>\<open>$'\<close> and
  \<^verbatim>\<open>$$\<close> in it are expanded. An assignment or a call that holds \<^verbatim>\<open>$&\<close> and
  no URL comes back with its own text inserted, in both revisions. A body made of
  the call \<^verbatim>\<open>a.exit($`$')\<close>, twelve characters, repeated one to four times comes
  back 9, 51, 183 and 543 characters long: every further call copies the text around
  it into the result. The strings of the model have no maximal length; an engine
  refuses a string above its own limit with a \<^verbatim>\<open>RangeError\<close>.
\<close>

theorem dollar_template_expanded_without_url:
  \<open>\<not> quoted_http ''var clickTag = "$&";'' \<and>
   processClickthroughUrls ''var clickTag = "$&";'' ''conversion'' =
     ''var clickTag = "clickTag = "$&"";'' \<and>
   processClickthroughUrls_001 ''var clickTag = "$&";'' (Some ''conversion'') =
     ''var clickTag = "clickTag = "$&"";'' \<and>
   \<not> quoted_http ''a.exit($&)'' \<and>
   processClickthroughUrls ''a.exit($&)'' ''gwd'' = ''a.exit(.exit($&))'' \<and>
   processClickthroughUrls_001 ''a.exit($&)'' (Some ''gwd'') = ''a.exit(.exit($&))'' \<and>
   map (\<lambda>k. length (processClickthroughUrls
                       (concat (replicate k (''a.exit($'' @ [CHR 0x60] @ ''$'' @ [CHR 0x27] @ '')'')))
                       ''gwd''))
       [1, 2, 3, 4] = [9, 51, 183, 543] \<and>
   map (\<lambda>k. length (processClickthroughUrls_001
                       (concat (replicate k (''a.exit($'' @ [CHR 0x60] @ ''$'' @ [CHR 0x27] @ '')'')))
                       (Some ''gwd'')))
       [1, 2, 3, 4] = [9, 51, 183, 543]\<close>
  by code_simp

lemma match_here_One_Some:
  "match_here ((p, One) # r) s = Some n \<longleftrightarrow>
   (\<exists>c cs m. s = c # cs \<and> p c \<and> match_here r cs = Some m \<and> n = Suc m)"
  by (cases s) auto


lemma match_here_lit_Some:
  "match_here (lit w @ r) s = Some n \<longleftrightarrow>
   (\<exists>t m. s = w @ t \<and> match_here r t = Some m \<and> n = length w + m)"
proof (induction w arbitrary: s n)
  case Nil
  show ?case by (simp add: lit_def)
next
  case (Cons a w)
  have "match_here (lit (a # w) @ r) s = match_here ((\<lambda>x. x = a, One) # (lit w @ r)) s"
    by (simp add: lit_def)
  then show ?case using Cons.IH by (auto simp: match_here_One_Some)
qed

lemma match_here_Star_shape:
  "match_here ((p, Star) # (q, One) # r) s = Some n \<Longrightarrow>
   \<exists>xs c t m. s = xs @ c # t \<and> (\<forall>x \<in> set xs. p x) \<and> q c \<and>
              match_here r t = Some m \<and> n = length xs + 1 + m"
proof (induction s arbitrary: n)
  case Nil
  then show ?case by simp
next
  case (Cons a s)
  show ?case
  proof (cases "p a \<and> match_here ((p, Star) # (q, One) # r) s \<noteq> None")
    case True
    then obtain k where k: "match_here ((p, Star) # (q, One) # r) s = Some k" by auto
    with True Cons.prems have n: "n = Suc k" by simp
    from Cons.IH [OF k] obtain xs c t m where
      "s = xs @ c # t" "\<forall>x \<in> set xs. p x" "q c" "match_here r t = Some m" "k = length xs + 1 + m"
      by blast
    with True n have "a # s = (a # xs) @ c # t \<and> (\<forall>x \<in> set (a # xs). p x) \<and> q c \<and>
        match_here r t = Some m \<and> n = length (a # xs) + 1 + m" by simp
    then show ?thesis by blast
  next
    case False
    with Cons.prems have "match_here ((q, One) # r) (a # s) = Some n"
      by (auto split: if_splits option.splits)
    then obtain m where "q a" "match_here r s = Some m" "n = Suc m"
      by (auto split: if_splits)
    then have "a # s = [] @ a # s \<and> (\<forall>x \<in> set []. p x) \<and> q a \<and>
        match_here r s = Some m \<and> n = length ([]::string) + 1 + m" by simp
    then show ?thesis by blast
  qed
qed

lemma exit_match_shape:
  assumes "match_here exit_regex s = Some n"
  shows "\<exists>c args rest. s = c # ''exit('' @ args @ CHR '')'' # rest \<and> \<not> is_line_terminator c \<and>
           args \<noteq> [] \<and> CHR '')'' \<notin> set args \<and> n = length args + 7"
proof -
  from assms have "match_here ((\<lambda>c. \<not> is_line_terminator c, One) #
      (lit ''exit('' @ [(\<lambda>c. c \<noteq> CHR '')'', Plus), (\<lambda>c. c = CHR '')'', One)])) s = Some n"
    by (simp add: exit_regex_def)
  then obtain c t m k where s: "s = c # ''exit('' @ t" and c: "\<not> is_line_terminator c"
    and m: "match_here [(\<lambda>c. c \<noteq> CHR '')'', Plus), (\<lambda>c. c = CHR '')'', One)] t = Some m"
    and n: "n = Suc (5 + m)"
    unfolding match_here_One_Some match_here_lit_Some by auto
  from m obtain a u k where t: "t = a # u" and a: "a \<noteq> CHR '')''"
    and k: "match_here [(\<lambda>c. c \<noteq> CHR '')'', Star), (\<lambda>c. c = CHR '')'', One)] u = Some k"
    and mk: "m = Suc k"
    by (cases t) (auto split: if_splits)
  from match_here_Star_shape [OF k] obtain xs rest where
    u: "u = xs @ CHR '')'' # rest" and xs: "\<forall>x \<in> set xs. x \<noteq> CHR '')''" and kk: "k = length xs + 1"
    by auto
  have "s = c # ''exit('' @ (a # xs) @ CHR '')'' # rest" using s t u by simp
  moreover have "CHR '')'' \<notin> set (a # xs)" using a xs by auto
  moreover have "n = length (a # xs) + 7" using n mk kk by simp
  ultimately show ?thesis using c by blast
qed

text \<open>
  Claim C8, amended. Every match of the exit-call pattern in a body is one character
  that is not a line terminator, the text \<^verbatim>\<open>exit(\<close>, a non-empty argument text
  without a closing parenthesis, and the closing parenthesis. Nothing keeps a line
  terminator out of the argument text.
\<close>

theorem exit_match_shape_may_span_lines:
  "\<forall>m \<in> set (match_all exit_regex body).
     \<exists>c args. m = c # ''exit('' @ args @ '')'' \<and> \<not> is_line_terminator c \<and>
              args \<noteq> [] \<and> CHR '')'' \<notin> set args"
proof
  fix m assume "m \<in> set (match_all exit_regex body)"
  then obtain suf n where "match_here exit_regex suf = Some n" and m: "m = take n suf"
    using match_all_elem by blast
  from exit_match_shape [OF this(1)] obtain c args rest where
    "suf = c # ''exit('' @ args @ CHR '')'' # rest" "\<not> is_line_terminator c"
    "args \<noteq> []" "CHR '')'' \<notin> set args" "n = length args + 7"
    by blast
  then have "suf = (c # ''exit('' @ args @ '')'') @ rest" "n = length (c # ''exit('' @ args @ '')'')"
    by simp_all
  with m have "m = c # ''exit('' @ args @ '')''" by (simp del: append.simps)
  then show "\<exists>c args. m = c # ''exit('' @ args @ '')'' \<and> \<not> is_line_terminator c \<and>
              args \<noteq> [] \<and> CHR '')'' \<notin> set args"
    using \<open>\<not> is_line_terminator c\<close> \<open>args \<noteq> []\<close> \<open>CHR '')'' \<notin> set args\<close> by blast
qed

lemma two_line_matches:
  \<open>match_all exit_regex ''gwd.exit('ad',\<newline>  'http://a.com/', true);'' =
     [''.exit('ad',\<newline>  'http://a.com/', true)'']\<close>
  by code_simp

text \<open>
  The claim as stated says that no match spans a newline. A call written on two lines is
  one match, and the URL on its second line is rewritten.
\<close>

theorem exit_match_spans_newline_counterexample:
  \<open>match_all exit_regex ''gwd.exit('ad',\<newline>  'http://a.com/', true);'' =
     [''.exit('ad',\<newline>  'http://a.com/', true)''] \<and>
   CHR 0x0A \<in> set ''.exit('ad',\<newline>  'http://a.com/', true)'' \<and>
   processClickthroughUrls_001 ''gwd.exit('ad',\<newline>  'http://a.com/', true);'' (Some ''gwd'') =
     ''gwd.exit('ad',\<newline>  decodeURIComponent(window.location.href.split('?adserver=')[1]) + 'http://a.com/', true);''\<close>
  by code_simp

theorem exit_match_shape_may_span_lines_witness:
  \<open>\<exists>c args. ''.exit('ad',\<newline>  'http://a.com/', true)'' = c # ''exit('' @ args @ '')'' \<and>
      \<not> is_line_terminator c \<and> args \<noteq> [] \<and> CHR '')'' \<notin> set args\<close>
proof -
  have "''.exit('ad',\<newline>  'http://a.com/', true)'' \<in>
          set (match_all exit_regex ''gwd.exit('ad',\<newline>  'http://a.com/', true);'')"
    by (subst two_line_matches) simp
  with exit_match_shape_may_span_lines
         [of \<open>''gwd.exit('ad',\<newline>  'http://a.com/', true);''\<close>]
  show ?thesis by blast
qed

section \<open>Properties of the rewriter\<close>










text \<open>
  Claim C1. The rewritten argument of an exit call should read
  \<^verbatim>\<open>decodeURIComponent(...) + '<url>',\<close>. On the call of the repository's own
  test, \<^verbatim>\<open>processClickthroughUrls\<close> of \<^verbatim>\<open>handler.js\<close> puts the URL in double
  quotes and drops the comma that separated it from the next argument.
\<close>

theorem handler_gwd_double_quotes_no_comma:
  \<open>processClickthroughUrls
     ''gwd.actions.gwdGoogleAd.exit('gwd-ad', 'Btn-Exit', 'http://www.google.com/', true, true);'' ''gwd'' =
     ''gwd.actions.gwdGoogleAd.exit('gwd-ad', 'Btn-Exit', decodeURIComponent(window.location.href.split('?adserver=')[1]) + "http://www.google.com/" true, true);''\<close>
  by code_simp

text \<open>The revision of \<^verbatim>\<open>part_001\<close> returns what the test expects on the same call.\<close>

lemma part_001_gwd_single_quotes_comma:
  \<open>processClickthroughUrls_001
     ''gwd.actions.gwdGoogleAd.exit('gwd-ad', 'Btn-Exit', 'http://www.google.com/', true, true);'' (Some ''gwd'') =
     ''gwd.actions.gwdGoogleAd.exit('gwd-ad', 'Btn-Exit', decodeURIComponent(window.location.href.split('?adserver=')[1]) + 'http://www.google.com/', true, true);''\<close>
  by code_simp

section \<open>The clickTag assignment of a Generic body\<close>






































section \<open>The exit call of a DesignerTool body\<close>

























section \<open>Applying the rewriter twice\<close>





















section \<open>A body with several assignments\<close>























end
